theory Spec2Isabelle
  imports Main
begin

section \<open>The flag store\<close>

text \<open>
  The views of \<^verbatim>\<open>features/views.py\<close> work on five tables of the object store.
  A table is the list of its rows in insertion order; a foreign key is the primary key
  of the row it points to; Python integers are \<^typ>\<open>int\<close>.

  Modelled from the spec: the model classes \<^verbatim>\<open>Environment\<close>, \<^verbatim>\<open>Feature\<close>,
  \<^verbatim>\<open>Identity\<close>, \<^verbatim>\<open>FeatureState\<close> and \<^verbatim>\<open>FeatureStateValue\<close> are declared
  outside the views. The rows below hold the fields the views read and write
  (\<^verbatim>\<open>id\<close>, \<^verbatim>\<open>api_key\<close>, \<^verbatim>\<open>project\<close>, \<^verbatim>\<open>name\<close>, \<^verbatim>\<open>identifier\<close>,
  \<^verbatim>\<open>environment\<close>, \<^verbatim>\<open>feature\<close>, \<^verbatim>\<open>identity\<close>) and those of section 3 of the
  specification: the enabled flag of a feature state, and the typed value of a feature
  state value (a type tag over a boolean, an integer and a string field), owned by one
  feature state.
\<close>

record environment =
  env_id :: int
  env_api_key :: string
  env_project :: int

record feature =
  feature_id :: int
  feature_name :: string
  feature_project :: int

record identity =
  identity_id :: int
  identity_identifier :: string
  identity_environment :: int

record feature_state =
  fs_id :: int
  fs_feature :: int
  fs_environment :: int
  fs_identity :: "int option"
  fs_enabled :: bool

datatype value_type = NONE_TYPE | STRING | INTEGER | BOOLEAN

record feature_state_value =
  fsv_id :: int
  fsv_feature_state :: int
  fsv_type :: value_type
  boolean_value :: "bool option"
  integer_value :: "int option"
  string_value :: "string option"

record store =
  environments :: "environment list"
  features :: "feature list"
  identities :: "identity list"
  feature_states :: "feature_state list"
  feature_state_values :: "feature_state_value list"

text \<open>The primary key the store gives a new row: one more than the largest key in use.\<close>

definition next_id :: "int list \<Rightarrow> int" where
  "next_id ids = foldr max ids 0 + 1"

section \<open>Exceptions, queries and responses\<close>

datatype model_name = EnvironmentM | FeatureM | IdentityM | FeatureStateM

datatype exn =
    DoesNotExist model_name
  | MultipleObjectsReturned model_name
  | Http404
  | ValueError
  | KeyError
  | AttributeError
  | ValidationError

text \<open>
  \<^verbatim>\<open>Model.objects.get(...)\<close> on the rows that match the lookup: the one match, or
  \<^verbatim>\<open>Model.DoesNotExist\<close> when there is none and
  \<^verbatim>\<open>Model.MultipleObjectsReturned\<close> when there are several.
\<close>

fun objects_get :: "model_name \<Rightarrow> 'a list \<Rightarrow> exn + 'a" where
  "objects_get m [] = Inl (DoesNotExist m)"
| "objects_get m [x] = Inr x"
| "objects_get m (x # y # zs) = Inl (MultipleObjectsReturned m)"

text \<open>\<^verbatim>\<open>get_object_or_404\<close> turns the missing row into \<^verbatim>\<open>Http404\<close> and nothing else.\<close>

definition get_object_or_404 :: "model_name \<Rightarrow> 'a list \<Rightarrow> exn + 'a" where
  "get_object_or_404 m rows =
     (case objects_get m rows of
        Inl e \<Rightarrow> if e = DoesNotExist m then Inl Http404 else Inl e
      | Inr x \<Rightarrow> Inr x)"

text \<open>
  The lookup \<^verbatim>\<open>name__iexact\<close>: equality of names up to the case of the letters
  \<^verbatim>\<open>A\<close> to \<^verbatim>\<open>Z\<close>. A capital letter and its small letter differ in one bit of the
  character code (32), which \<open>lower_char\<close> sets.
\<close>

definition lower_char :: "char \<Rightarrow> char" where
  "lower_char c =
     (if c \<in> set ''ABCDEFGHIJKLMNOPQRSTUVWXYZ''
      then (case c of Char b0 b1 b2 b3 b4 b5 b6 b7 \<Rightarrow> Char b0 b1 b2 b3 b4 True b6 b7)
      else c)"

definition iexact :: "string \<Rightarrow> string \<Rightarrow> bool" where
  "iexact a b = (map lower_char a = map lower_char b)"

text \<open>
  What a view hands to \<^verbatim>\<open>Response\<close>. The serializer classes are not part of the
  views, so serialized data is kept as the call that produces it:
  \<open>Data cls inst many\<close> is \<^verbatim>\<open>cls(inst, many=many).data\<close>, where the serialized
  object is one feature state (\<open>Obj\<close>) or a query set (\<open>QuerySet\<close>), and
  \<open>Plus a b\<close> is the concatenation \<^verbatim>\<open>a + b\<close> of two such lists.
\<close>

datatype serializer_class =
  FeatureStateSerializerBasic | FeatureStateSerializerFull | FeatureStateSerializerCreate

datatype serialized = Obj feature_state | QuerySet "feature_state list"

datatype body =
    Detail string
  | Data serializer_class serialized bool
  | Plus body body
  | Errors

record response =
  status :: nat
  body :: body

text \<open>
  The framework's exception handler around a view: \<^verbatim>\<open>Http404\<close> becomes a 404
  response and a \<^verbatim>\<open>ValidationError\<close> a 400 response; every other exception is
  raised again and leaves the view unanswered.
\<close>

fun handle_exception :: "exn \<Rightarrow> exn + response" where
  "handle_exception Http404 = Inr \<lparr>status = 404, body = Detail ''Not found.''\<rparr>"
| "handle_exception ValidationError = Inr \<lparr>status = 400, body = Errors\<rparr>"
| "handle_exception e = Inl e"

definition dispatch :: "(exn + response) \<times> store \<Rightarrow> (exn + response) \<times> store" where
  "dispatch r =
     (case fst r of
        Inl e \<Rightarrow> (handle_exception e, snd r)
      | Inr resp \<Rightarrow> (Inr resp, snd r))"

section \<open>The SDK lookup endpoint\<close>

record sdk_request =
  META_HTTP_X_ENVIRONMENT_KEY :: "string option"
  GET_feature :: "string option"

text \<open>
  \<^verbatim>\<open>Feature.objects.get(name__iexact=name, project=environment.project)\<close>.
\<close>

definition Feature_objects_get :: "store \<Rightarrow> string \<Rightarrow> environment \<Rightarrow> exn + feature" where
  "Feature_objects_get s name env =
     objects_get FeatureM
       (filter (\<lambda>f. iexact (feature_name f) name \<and> feature_project f = env_project env)
          (features s))"

text \<open>
  \<^verbatim>\<open>FeatureState.objects.filter(environment=..., identity=..., feature=...)\<close> and the
  \<^verbatim>\<open>get\<close> on the same lookup; \<open>ident\<close> is the primary key of the identity or
  \<open>None\<close> for \<^verbatim>\<open>identity=None\<close>.
\<close>

definition FeatureState_objects_filter ::
    "store \<Rightarrow> environment \<Rightarrow> int option \<Rightarrow> feature \<Rightarrow> feature_state list" where
  "FeatureState_objects_filter s env ident f =
     filter (\<lambda>fs. fs_environment fs = env_id env \<and> fs_identity fs = ident \<and>
                  fs_feature fs = feature_id f)
       (feature_states s)"

definition FeatureState_objects_get ::
    "store \<Rightarrow> environment \<Rightarrow> int option \<Rightarrow> feature \<Rightarrow> exn + feature_state" where
  "FeatureState_objects_get s env ident f =
     objects_get FeatureStateM (FeatureState_objects_filter s env ident f)"

text \<open>
  \<^verbatim>\<open>Identity.objects.get(identifier=identifier, environment=environment)\<close> and
  \<^verbatim>\<open>Identity.objects.create(identifier=identifier, environment=environment)\<close>.
\<close>

definition Identity_objects_get :: "store \<Rightarrow> string \<Rightarrow> environment \<Rightarrow> exn + identity" where
  "Identity_objects_get s identifier env =
     objects_get IdentityM
       (filter (\<lambda>i. identity_identifier i = identifier \<and> identity_environment i = env_id env)
          (identities s))"

definition Identity_objects_create :: "store \<Rightarrow> string \<Rightarrow> environment \<Rightarrow> identity \<times> store" where
  "Identity_objects_create s identifier env =
     (let i = \<lparr>identity_id = next_id (map identity_id (identities s)),
                identity_identifier = identifier,
                identity_environment = env_id env\<rparr>
      in (i, s\<lparr>identities := identities s @ [i]\<rparr>))"

text \<open>
  Modelled from the spec: \<^verbatim>\<open>Identity.get_all_feature_states\<close> lives in the
  environments' models, outside the views. Section 4.1 of the specification gives its
  two results: the feature states of the identity in its environment, and the
  environment-level feature states of that environment whose feature the identity does
  not override. It reads the store and writes nothing.
\<close>

definition get_all_feature_states ::
    "store \<Rightarrow> identity \<Rightarrow> feature_state list \<times> feature_state list" where
  "get_all_feature_states s i =
     (let identity_flags =
            filter (\<lambda>fs. fs_identity fs = Some (identity_id i) \<and>
                         fs_environment fs = identity_environment i)
              (feature_states s);
          environment_flags =
            filter (\<lambda>fs. fs_environment fs = identity_environment i \<and> fs_identity fs = None \<and>
                         fs_feature fs \<notin> set (map fs_feature identity_flags))
              (feature_states s)
      in (identity_flags, environment_flags))"

text \<open>
  \<^verbatim>\<open>SDKFeatureStates.get\<close>, lines 191 to 224: the branch taken when the path carries
  an identifier. The identity is fetched, or created when it does not exist; with a
  \<^verbatim>\<open>feature\<close> query parameter the \<^verbatim>\<open>try\<close> block answers, otherwise all flags of
  the identity are listed.
\<close>

definition get_with_identifier ::
    "store \<Rightarrow> sdk_request \<Rightarrow> environment \<Rightarrow> string \<Rightarrow> (exn + response) \<times> store" where
  "get_with_identifier s request env identifier =
     (case (case Identity_objects_get s identifier env of
              Inr i \<Rightarrow> (Inr i, s)
            | Inl e \<Rightarrow>
                if e = DoesNotExist IdentityM
                then (case Identity_objects_create s identifier env of (i, s') \<Rightarrow> (Inr i, s'))
                else (Inl e, s)) of
        (Inl e, s1) \<Rightarrow> (Inl e, s1)
      | (Inr ident, s1) \<Rightarrow>
          (case GET_feature request of
             Some name \<Rightarrow>
               (case Feature_objects_get s1 name env of
                  Inl e \<Rightarrow>
                    if e = DoesNotExist FeatureM
                    then (Inr \<lparr>status = 404, body = Detail ''Given feature not found''\<rparr>, s1)
                    else (Inl e, s1)
                | Inr f \<Rightarrow>
                    (case FeatureState_objects_get s1 env (Some (identity_id ident)) f of
                       Inr feature_state \<Rightarrow>
                         (Inr \<lparr>status = 200,
                               body = Data FeatureStateSerializerFull (Obj feature_state) False\<rparr>, s1)
                     | Inl e \<Rightarrow>
                         if e = DoesNotExist FeatureStateM
                         then (case FeatureState_objects_get s1 env None f of
                                 Inr feature_state \<Rightarrow>
                                   (Inr \<lparr>status = 200,
                                         body = Data FeatureStateSerializerFull
                                                  (Obj feature_state) False\<rparr>, s1)
                               | Inl e' \<Rightarrow> (Inl e', s1))
                         else (Inl e, s1)))
           | None \<Rightarrow>
               (case get_all_feature_states s1 ident of
                  (identity_flags, environment_flags) \<Rightarrow>
                    (Inr \<lparr>status = 200,
                          body = Plus (Data FeatureStateSerializerFull (QuerySet environment_flags) True)
                                      (Data FeatureStateSerializerFull (QuerySet identity_flags) True)\<rparr>,
                     s1))))"

text \<open>
  \<^verbatim>\<open>SDKFeatureStates.get\<close>, lines 226 to 244: the branch without an identifier. With
  a \<^verbatim>\<open>feature\<close> query parameter the filtered query set itself goes to the serializer,
  with no \<^verbatim>\<open>many=True\<close>; without one the environment-level flags are listed.
\<close>

definition get_without_identifier ::
    "store \<Rightarrow> sdk_request \<Rightarrow> environment \<Rightarrow> (exn + response) \<times> store" where
  "get_without_identifier s request env =
     (case GET_feature request of
        Some name \<Rightarrow>
          (case Feature_objects_get s name env of
             Inl e \<Rightarrow>
               if e = DoesNotExist FeatureM
               then (Inr \<lparr>status = 404, body = Detail ''Given feature not found''\<rparr>, s)
               else (Inl e, s)
           | Inr f \<Rightarrow>
               (Inr \<lparr>status = 200,
                     body = Data FeatureStateSerializerFull
                              (QuerySet (FeatureState_objects_filter s env None f)) False\<rparr>, s))
      | None \<Rightarrow>
          (Inr \<lparr>status = 200,
                body = Data FeatureStateSerializerFull
                         (QuerySet (filter (\<lambda>fs. fs_environment fs = env_id env \<and>
                                                 fs_identity fs = None)
                                      (feature_states s))) True\<rparr>, s))"

text \<open>
  \<^verbatim>\<open>SDKFeatureStates.get\<close>, lines 184 to 191. \<^verbatim>\<open>if identifier:\<close> is Python's
  truth test: an absent and an empty identifier both take the second branch.
\<close>

definition SDKFeatureStates_get ::
    "store \<Rightarrow> sdk_request \<Rightarrow> string option \<Rightarrow> (exn + response) \<times> store" where
  "SDKFeatureStates_get s request identifier =
     (case META_HTTP_X_ENVIRONMENT_KEY request of
        None \<Rightarrow>
          (Inr \<lparr>status = 400, body = Detail ''Environment Key header not provided''\<rparr>, s)
      | Some key \<Rightarrow>
          (case get_object_or_404 EnvironmentM
                  (filter (\<lambda>e. env_api_key e = key) (environments s)) of
             Inl e \<Rightarrow> (Inl e, s)
           | Inr env \<Rightarrow>
               (case identifier of
                  None \<Rightarrow> get_without_identifier s request env
                | Some i \<Rightarrow>
                    if i \<noteq> [] then get_with_identifier s request env i
                    else get_without_identifier s request env)))"

section \<open>The administrative view set\<close>

text \<open>
  The URL parameters of \<^verbatim>\<open>FeatureStateViewSet\<close> (\<^verbatim>\<open>self.kwargs\<close>, the fields
  \<open>kw_...\<close>) and the request's payload (\<^verbatim>\<open>request.data\<close>). A key of the payload is
  absent (\<open>None\<close>) or holds a value. The \<^verbatim>\<open>feature\<close> entry is what \<^verbatim>\<open>int(...)\<close> makes of it: an
  integer, or a value on which \<^verbatim>\<open>int\<close> raises. The \<^verbatim>\<open>identity\<close> entry holds a
  primary key or \<^verbatim>\<open>null\<close>. The \<^verbatim>\<open>feature_state_value\<close> entry is a JSON value:
  \<^verbatim>\<open>null\<close>, a boolean, an integer, a string, or a value of any other shape (a list or an
  object).
\<close>

record view_kwargs =
  kw_environment_api_key :: string
  kw_identity_identifier :: "string option"
  kw_pk :: int

datatype feature_ref = Ref int | NotAnInteger

datatype json_value = JNull | JBool bool | JInt int | JStr string | JOther

record feature_state_data =
  data_feature :: "feature_ref option"
  data_environment :: "int option"
  data_identity :: "int option option"
  data_enabled :: "bool option"
  data_feature_state_value :: "json_value option"

fun py_int :: "feature_ref \<Rightarrow> exn + int" where
  "py_int (Ref n) = Inr n"
| "py_int NotAnInteger = Inl ValueError"

subsection \<open>The serializers and the model methods the views call\<close>

text \<open>
  \<^verbatim>\<open>FeatureState.generate_feature_state_value_data\<close>, the reverse accessor
  \<^verbatim>\<open>feature_state.feature_state_value\<close> and \<^verbatim>\<open>FeatureStateValueSerializer\<close> are
  in the features' models and serializers, outside the views. Sections 3 and 4.3 of the
  specification say what they do: a feature state value is owned by one feature state
  and holds a typed value (none, string, integer or boolean), the type tag saying which
  value field counts; a payload is parsed by its type and persisted as a new value row
  or as an update of the existing one.
\<close>

record feature_state_value_data =
  vd_feature_state :: int
  vd_value :: json_value

text \<open>
  Modelled from the spec: \<^verbatim>\<open>generate_feature_state_value_data\<close> makes the data for
  the value serializer from the payload value; the data name the owning feature state.
\<close>

definition generate_feature_state_value_data ::
    "feature_state \<Rightarrow> json_value \<Rightarrow> feature_state_value_data" where
  "generate_feature_state_value_data fs v = \<lparr>vd_feature_state = fs_id fs, vd_value = v\<rparr>"

text \<open>
  Modelled from the spec: the accessor \<^verbatim>\<open>feature_state.feature_state_value\<close>, the
  value row owned by the feature state, if there is one.
\<close>

definition feature_state_value_of :: "store \<Rightarrow> feature_state \<Rightarrow> feature_state_value option" where
  "feature_state_value_of s fs =
     find (\<lambda>v. fsv_feature_state v = fs_id fs) (feature_state_values s)"

text \<open>
  Modelled from the spec: \<^verbatim>\<open>FeatureStateValueSerializer.is_valid\<close>. A value is
  invalid when it has none of the supported types.
\<close>

definition FeatureStateValueSerializer_is_valid :: "feature_state_value_data \<Rightarrow> bool" where
  "FeatureStateValueSerializer_is_valid d = (vd_value d \<noteq> JOther)"

text \<open>
  Modelled from the spec: the type-aware field assignment of the value serializer. The
  type tag and the field of that type are assigned; the other fields stay.
\<close>

fun assign_value :: "json_value \<Rightarrow> feature_state_value \<Rightarrow> feature_state_value" where
  "assign_value JNull row = row\<lparr>fsv_type := NONE_TYPE\<rparr>"
| "assign_value (JBool b) row = row\<lparr>fsv_type := BOOLEAN, boolean_value := Some b\<rparr>"
| "assign_value (JInt n) row = row\<lparr>fsv_type := INTEGER, integer_value := Some n\<rparr>"
| "assign_value (JStr t) row = row\<lparr>fsv_type := STRING, string_value := Some t\<rparr>"
| "assign_value JOther row = row"

text \<open>
  Modelled from the spec: \<^verbatim>\<open>FeatureStateValueSerializer.save\<close>. Without an instance
  a new value row is created; with one, that row is updated in place.
\<close>

definition FeatureStateValueSerializer_save ::
    "store \<Rightarrow> feature_state_value option \<Rightarrow> feature_state_value_data \<Rightarrow>
     feature_state_value \<times> store" where
  "FeatureStateValueSerializer_save s inst d =
     (case inst of
        None \<Rightarrow>
          (let row = assign_value (vd_value d)
                       \<lparr>fsv_id = next_id (map fsv_id (feature_state_values s)),
                        fsv_feature_state = vd_feature_state d,
                        fsv_type = NONE_TYPE,
                        boolean_value = None, integer_value = None, string_value = None\<rparr>
           in (row, s\<lparr>feature_state_values := feature_state_values s @ [row]\<rparr>))
      | Some old \<Rightarrow>
          (let row = assign_value (vd_value d) (old\<lparr>fsv_feature_state := vd_feature_state d\<rparr>)
           in (row, s\<lparr>feature_state_values :=
                          map (\<lambda>r. if fsv_id r = fsv_id old then row else r)
                            (feature_state_values s)\<rparr>)))"


text \<open>
  \<^verbatim>\<open>FeatureStateSerializerBasic\<close> and the \<^verbatim>\<open>FeatureState\<close> model with its
  constraints are in the features' serializers and models, outside the views. By
  sections 3 and 5 of the specification the store holds at most one feature state per
  (environment, feature, identity), identity none included, and enforces it as a
  uniqueness constraint.
\<close>

text \<open>
  Modelled from the spec: the (environment, feature, identity) of a feature state.
\<close>

definition fs_key :: "feature_state \<Rightarrow> int \<times> int \<times> int option" where
  "fs_key fs = (fs_environment fs, fs_feature fs, fs_identity fs)"

text \<open>
  Modelled from the spec: the uniqueness constraint on a row to write. No other row of
  the store has its (environment, feature, identity).
\<close>

definition unique_together :: "store \<Rightarrow> feature_state \<Rightarrow> bool" where
  "unique_together s row =
     (fs_key row \<notin> set (map fs_key (filter (\<lambda>r. fs_id r \<noteq> fs_id row) (feature_states s))))"

text \<open>
  Modelled from the spec: the validation of the references in the data. A feature, an
  environment or an identity that the data name is a row of the store.
\<close>

definition references_exist :: "store \<Rightarrow> feature_state_data \<Rightarrow> bool" where
  "references_exist s d =
     ((case data_feature d of
         None \<Rightarrow> True
       | Some NotAnInteger \<Rightarrow> False
       | Some (Ref fid) \<Rightarrow> fid \<in> set (map feature_id (features s))) \<and>
      (case data_environment d of
         None \<Rightarrow> True
       | Some e \<Rightarrow> e \<in> set (map env_id (environments s))) \<and>
      (case data_identity d of
         None \<Rightarrow> True
       | Some None \<Rightarrow> True
       | Some (Some i) \<Rightarrow> i \<in> set (map identity_id (identities s))))"

text \<open>
  Modelled from the spec: \<^verbatim>\<open>FeatureStateSerializerBasic(data=data)\<close>, validated. It
  yields the row that \<^verbatim>\<open>save\<close> creates, or \<open>None\<close> when \<^verbatim>\<open>is_valid\<close> is
  false. A create needs the feature and the environment; the identity defaults to none
  and the enabled flag to false.
\<close>

definition create_validated :: "store \<Rightarrow> feature_state_data \<Rightarrow> feature_state option" where
  "create_validated s d =
     (case data_feature d of
        None \<Rightarrow> None
      | Some NotAnInteger \<Rightarrow> None
      | Some (Ref fid) \<Rightarrow>
          (case data_environment d of
             None \<Rightarrow> None
           | Some e \<Rightarrow>
               (let row = \<lparr>fs_id = next_id (map fs_id (feature_states s)),
                           fs_feature = fid,
                           fs_environment = e,
                           fs_identity = (case data_identity d of None \<Rightarrow> None | Some i \<Rightarrow> i),
                           fs_enabled = (case data_enabled d of None \<Rightarrow> False | Some b \<Rightarrow> b)\<rparr>
                in if references_exist s d \<and> unique_together s row then Some row else None)))"

text \<open>
  Modelled from the spec: \<^verbatim>\<open>FeatureStateSerializerBasic(instance, data=data,
  partial=partial)\<close>, validated. It yields the row that \<^verbatim>\<open>save\<close> writes, or
  \<open>None\<close> when the data are invalid. An update that is not partial needs the feature
  and the environment; a partial update keeps every field the data leave out.
\<close>

definition update_validated ::
    "store \<Rightarrow> feature_state \<Rightarrow> feature_state_data \<Rightarrow> bool \<Rightarrow> feature_state option" where
  "update_validated s fs d partial =
     (if (data_feature d = None \<or> data_environment d = None) \<and> \<not> partial then None
      else
        (let row = fs\<lparr>fs_feature := (case data_feature d of
                                         Some (Ref fid) \<Rightarrow> fid
                                       | _ \<Rightarrow> fs_feature fs),
                       fs_environment := (case data_environment d of
                                            Some e \<Rightarrow> e
                                          | None \<Rightarrow> fs_environment fs),
                       fs_identity := (case data_identity d of
                                         Some i \<Rightarrow> i
                                       | None \<Rightarrow> fs_identity fs),
                       fs_enabled := (case data_enabled d of
                                        Some b \<Rightarrow> b
                                      | None \<Rightarrow> fs_enabled fs)\<rparr>
         in if references_exist s d \<and> unique_together s row then Some row else None))"

subsection \<open>The views\<close>

text \<open>
  \<^verbatim>\<open>get_queryset\<close>, lines 47 to 60, and the framework's \<^verbatim>\<open>get_object\<close>, which
  looks the primary key of the path up in that query set with \<^verbatim>\<open>get_object_or_404\<close>.
\<close>

definition get_queryset :: "store \<Rightarrow> view_kwargs \<Rightarrow> exn + feature_state list" where
  "get_queryset s kw =
     (case objects_get EnvironmentM
             (filter (\<lambda>e. env_api_key e = kw_environment_api_key kw) (environments s)) of
        Inl e \<Rightarrow> Inl e
      | Inr env \<Rightarrow>
          (case (case kw_identity_identifier kw of
                   None \<Rightarrow> Inr None
                 | Some i \<Rightarrow>
                     if i \<noteq> []
                     then (case Identity_objects_get s i env of
                             Inl e \<Rightarrow> Inl e
                           | Inr ident \<Rightarrow> Inr (Some (identity_id ident)))
                     else Inr None) of
             Inl e \<Rightarrow> Inl e
           | Inr ident \<Rightarrow>
               Inr (filter (\<lambda>fs. fs_environment fs = env_id env \<and> fs_identity fs = ident)
                      (feature_states s))))"

definition get_object :: "store \<Rightarrow> view_kwargs \<Rightarrow> exn + feature_state" where
  "get_object s kw =
     (case get_queryset s kw of
        Inl e \<Rightarrow> Inl e
      | Inr rows \<Rightarrow> get_object_or_404 FeatureStateM (filter (\<lambda>fs. fs_id fs = kw_pk kw) rows))"

text \<open>
  \<^verbatim>\<open>update_feature_state_value\<close>, lines 152 to 166. It returns the saved value, or,
  when the value serializer refuses the data, a 400 response object as its result.
\<close>

datatype saved_or_response = Saved feature_state_value | Returned response

definition update_feature_state_value ::
    "store \<Rightarrow> feature_state_value option \<Rightarrow> json_value \<Rightarrow> feature_state \<Rightarrow>
     saved_or_response \<times> store" where
  "update_feature_state_value s inst v fs =
     (let feature_state_value_dict = generate_feature_state_value_data fs v in
      if FeatureStateValueSerializer_is_valid feature_state_value_dict
      then (case FeatureStateValueSerializer_save s inst feature_state_value_dict of
              (feature_state_value, s') \<Rightarrow> (Saved feature_state_value, s'))
      else (Returned \<lparr>status = 400, body = Errors\<rparr>, s))"

text \<open>
  \<^verbatim>\<open>get_environment_from_request\<close>, lines 62 to 67, and
  \<^verbatim>\<open>get_identity_from_request\<close>, lines 69 to 75. Indexing \<^verbatim>\<open>self.kwargs\<close> with
  a key it does not have raises \<^verbatim>\<open>KeyError\<close>.
\<close>

definition get_environment_from_request :: "store \<Rightarrow> view_kwargs \<Rightarrow> exn + environment" where
  "get_environment_from_request s kw =
     objects_get EnvironmentM
       (filter (\<lambda>e. env_api_key e = kw_environment_api_key kw) (environments s))"

definition get_identity_from_request ::
    "store \<Rightarrow> view_kwargs \<Rightarrow> environment \<Rightarrow> exn + identity" where
  "get_identity_from_request s kw env =
     (case kw_identity_identifier kw of
        None \<Rightarrow> Inl KeyError
      | Some i \<Rightarrow> Identity_objects_get s i env)"

text \<open>
  \<^verbatim>\<open>FeatureStateViewSet.create\<close>, lines 95 to 97: with an identity in the path,
  \<^verbatim>\<open>get_identity_from_request\<close> fetches it and its key goes into the data.
\<close>

definition attach_identity ::
    "store \<Rightarrow> view_kwargs \<Rightarrow> environment \<Rightarrow> feature_state_data \<Rightarrow> exn + feature_state_data" where
  "attach_identity s kw env data =
     (case kw_identity_identifier kw of
        None \<Rightarrow> Inr data
      | Some i \<Rightarrow>
          if i \<noteq> []
          then (case get_identity_from_request s kw env of
                  Inl e \<Rightarrow> Inl e
                | Inr ident \<Rightarrow> Inr (data\<lparr>data_identity := Some (Some (identity_id ident))\<rparr>))
          else Inr data)"

text \<open>
  \<^verbatim>\<open>FeatureStateViewSet.create\<close>, lines 77 to 112. The result of
  \<^verbatim>\<open>update_feature_state_value\<close> is not looked at; what it wrote stays written.
  The success headers of the response are left out.
\<close>

definition create :: "store \<Rightarrow> view_kwargs \<Rightarrow> feature_state_data \<Rightarrow> (exn + response) \<times> store" where
  "create s kw request_data =
     (case get_environment_from_request s kw of
        Inl e \<Rightarrow> (Inl e, s)
      | Inr env \<Rightarrow>
          (let data = request_data\<lparr>data_environment := Some (env_id env)\<rparr> in
           case data_feature data of
             None \<Rightarrow> (Inr \<lparr>status = 400, body = Detail ''Feature not provided''\<rparr>, s)
           | Some ref \<Rightarrow>
               (case py_int ref of
                  Inl e \<Rightarrow> (Inl e, s)
                | Inr fid \<Rightarrow>
                    if fid \<notin> set (map feature_id
                                    (filter (\<lambda>f. feature_project f = env_project env) (features s)))
                    then (Inr \<lparr>status = 400,
                               body = Detail ''Feature does not exist in project''\<rparr>, s)
                    else
                      (case attach_identity s kw env data of
                         Inl e \<Rightarrow> (Inl e, s)
                       | Inr data' \<Rightarrow>
                           (case create_validated s data' of
                              Some feature_state \<Rightarrow>
                                (let s1 = s\<lparr>feature_states :=
                                              feature_states s @ [feature_state]\<rparr>;
                                     created = \<lparr>status = 201,
                                                body = Data FeatureStateSerializerBasic
                                                         (Obj feature_state) False\<rparr>
                                 in case data_feature_state_value data' of
                                      Some v \<Rightarrow>
                                        (Inr created,
                                         snd (update_feature_state_value s1
                                                (feature_state_value_of s1 feature_state)
                                                v feature_state))
                                    | None \<Rightarrow> (Inr created, s1))
                            | None \<Rightarrow>
                                (Inr \<lparr>status = 400,
                                      body = Detail ''Couldn't create feature state.''\<rparr>, s))))))"

text \<open>
  \<^verbatim>\<open>FeatureStateViewSet.update\<close>, lines 124 to 131: with a
  \<^verbatim>\<open>feature_state_value\<close> in the data, the value is written first and the entry is
  replaced by the \<^verbatim>\<open>id\<close> of what \<^verbatim>\<open>update_feature_state_value\<close> returned.
  A response object has no \<^verbatim>\<open>id\<close>: reading it raises \<^verbatim>\<open>AttributeError\<close>.
\<close>

definition update_value_entry ::
    "store \<Rightarrow> feature_state \<Rightarrow> feature_state_data \<Rightarrow> (exn + feature_state_data) \<times> store" where
  "update_value_entry s feature_state_to_update feature_state_data =
     (case data_feature_state_value feature_state_data of
        None \<Rightarrow> (Inr feature_state_data, s)
      | Some v \<Rightarrow>
          (case update_feature_state_value s
                  (feature_state_value_of s feature_state_to_update)
                  v feature_state_to_update of
             (Saved feature_state_value, s1) \<Rightarrow>
               (Inr (feature_state_data
                       \<lparr>data_feature_state_value := Some (JInt (fsv_id feature_state_value))\<rparr>),
                s1)
           | (Returned r, s1) \<Rightarrow> (Inl AttributeError, s1)))"

text \<open>
  \<^verbatim>\<open>FeatureStateViewSet.update\<close>, lines 114 to 144. The serializer always runs with
  \<^verbatim>\<open>partial=True\<close>, and \<^verbatim>\<open>is_valid(raise_exception=True)\<close> raises
  \<^verbatim>\<open>ValidationError\<close> on invalid data. The query set of \<^verbatim>\<open>get_queryset\<close>
  prefetches nothing, so the updated object has no prefetch cache and lines 138 to 142
  are not taken.
\<close>

definition update :: "store \<Rightarrow> view_kwargs \<Rightarrow> feature_state_data \<Rightarrow> (exn + response) \<times> store" where
  "update s kw feature_state_data =
     (case get_object s kw of
        Inl e \<Rightarrow> (Inl e, s)
      | Inr feature_state_to_update \<Rightarrow>
          (case update_value_entry s feature_state_to_update feature_state_data of
             (Inl e, s1) \<Rightarrow> (Inl e, s1)
           | (Inr data, s1) \<Rightarrow>
               (case update_validated s1 feature_state_to_update data True of
                  None \<Rightarrow> (Inl ValidationError, s1)
                | Some row \<Rightarrow>
                    (Inr \<lparr>status = 200,
                          body = Data FeatureStateSerializerBasic (Obj row) False\<rparr>,
                     s1\<lparr>feature_states :=
                          map (\<lambda>r. if fs_id r = fs_id row then row else r)
                            (feature_states s1)\<rparr>))))"




section \<open>A scenario\<close>

text \<open>
  The scenario of section 8 of the specification: the environment with key
  \<^verbatim>\<open>abc123\<close>, the feature \<^verbatim>\<open>dark_mode\<close> with the environment-level state
  \<^verbatim>\<open>enabled=false\<close>, and the identity \<^verbatim>\<open>user42\<close> with the override
  \<^verbatim>\<open>enabled=true\<close>. \<open>bare_store\<close> is the same project before any feature state
  or identity exists.
\<close>

definition env_abc123 :: environment where
  "env_abc123 = \<lparr>env_id = 1, env_api_key = ''abc123'', env_project = 1\<rparr>"

definition dark_mode :: feature where
  "dark_mode = \<lparr>feature_id = 1, feature_name = ''dark_mode'', feature_project = 1\<rparr>"

definition user42 :: identity where
  "user42 = \<lparr>identity_id = 1, identity_identifier = ''user42'', identity_environment = 1\<rparr>"

definition env_default :: feature_state where
  "env_default = \<lparr>fs_id = 1, fs_feature = 1, fs_environment = 1, fs_identity = None,
                   fs_enabled = False\<rparr>"

definition user_override :: feature_state where
  "user_override = \<lparr>fs_id = 2, fs_feature = 1, fs_environment = 1, fs_identity = Some 1,
                     fs_enabled = True\<rparr>"

definition scenario_store :: store where
  "scenario_store = \<lparr>environments = [env_abc123], features = [dark_mode],
                      identities = [user42], feature_states = [env_default, user_override],
                      feature_state_values = []\<rparr>"

definition bare_store :: store where
  "bare_store = \<lparr>environments = [env_abc123], features = [dark_mode],
                  identities = [], feature_states = [], feature_state_values = []\<rparr>"

definition sdk_lookup :: "string option \<Rightarrow> string option \<Rightarrow> sdk_request" where
  "sdk_lookup key name = \<lparr>META_HTTP_X_ENVIRONMENT_KEY = key, GET_feature = name\<rparr>"

definition under_abc123 :: "int \<Rightarrow> view_kwargs" where
  "under_abc123 k =
     \<lparr>kw_environment_api_key = ''abc123'', kw_identity_identifier = None, kw_pk = k\<rparr>"

definition payload :: "feature_ref option \<Rightarrow> json_value option \<Rightarrow> feature_state_data" where
  "payload f v = \<lparr>data_feature = f, data_environment = None, data_identity = None,
                  data_enabled = None, data_feature_state_value = v\<rparr>"

section \<open>Facts about queries and rows\<close>

lemmas sdk_defs =
  SDKFeatureStates_get_def get_with_identifier_def get_without_identifier_def
  get_object_or_404_def Identity_objects_get_def Identity_objects_create_def
  Feature_objects_get_def FeatureState_objects_get_def FeatureState_objects_filter_def
  get_all_feature_states_def iexact_def lower_char_def next_id_def Let_def

lemma objects_get_Inr: "objects_get m xs = Inr x \<longleftrightarrow> xs = [x]"
  by (cases "(m, xs)" rule: objects_get.cases) auto

lemma objects_get_Inl:
  "objects_get m xs = Inl e \<longleftrightarrow>
     (xs = [] \<and> e = DoesNotExist m) \<or> (2 \<le> length xs \<and> e = MultipleObjectsReturned m)"
  by (cases "(m, xs)" rule: objects_get.cases) auto

lemma get_object_or_404_Inr: "get_object_or_404 m xs = Inr x \<longleftrightarrow> xs = [x]"
  by (auto simp: get_object_or_404_def objects_get_Inr split: sum.splits)






section \<open>The SDK lookup: errors and effects\<close>

text \<open>
  C6: a lookup without the \<^verbatim>\<open>X-Environment-Key\<close> header is answered 400, the
  validation error "Environment Key header not provided"; a lookup whose key matches
  no environment is answered 404. Neither touches the store.
\<close>

theorem C6_environment_key_errors:
  "(META_HTTP_X_ENVIRONMENT_KEY request = None \<longrightarrow>
      dispatch (SDKFeatureStates_get s request identifier) =
        (Inr \<lparr>status = 400, body = Detail ''Environment Key header not provided''\<rparr>, s)) \<and>
   (\<forall>key. META_HTTP_X_ENVIRONMENT_KEY request = Some key \<and>
          filter (\<lambda>e. env_api_key e = key) (environments s) = [] \<longrightarrow>
      dispatch (SDKFeatureStates_get s request identifier) =
        (Inr \<lparr>status = 404, body = Detail ''Not found.''\<rparr>, s))"
  by (simp add: SDKFeatureStates_get_def dispatch_def get_object_or_404_def)

theorem C6_environment_key_errors_witness:
  "dispatch (SDKFeatureStates_get scenario_store (sdk_lookup None (Some ''dark_mode''))
               (Some ''user42'')) =
     (Inr \<lparr>status = 400, body = Detail ''Environment Key header not provided''\<rparr>,
      scenario_store) \<and>
   dispatch (SDKFeatureStates_get scenario_store (sdk_lookup (Some ''xyz789'') None) None) =
     (Inr \<lparr>status = 404, body = Detail ''Not found.''\<rparr>, scenario_store)"
  using C6_environment_key_errors
          [of "sdk_lookup None (Some ''dark_mode'')" scenario_store "Some ''user42''"]
        C6_environment_key_errors
          [of "sdk_lookup (Some ''xyz789'') None" scenario_store None]
  by (simp add: scenario_store_def env_abc123_def sdk_lookup_def)



lemma sdk_frame_with:
  "snd (get_with_identifier s request env i) = s \<or>
   (Identity_objects_get s i env = Inl (DoesNotExist IdentityM) \<and>
    snd (get_with_identifier s request env i) = snd (Identity_objects_create s i env))"
  by (auto simp: get_with_identifier_def Identity_objects_create_def Let_def
        get_all_feature_states_def
      split: sum.splits option.splits prod.splits)

lemma sdk_frame_without: "snd (get_without_identifier s request env) = s"
  by (auto simp: get_without_identifier_def split: sum.splits option.splits)

text \<open>
  C9: a lookup leaves the environments, the features, the feature states and the feature
  state values as they are. Without an identifier (absent or empty) the store is
  unchanged. When the store changes at all, the path carried an identifier, the key
  resolved to an environment in which no identity had that identifier, and the change is
  that one new identity at the end of the identities.
\<close>

theorem C9_lookup_only_creates_identity:
  "environments (snd (SDKFeatureStates_get s request identifier)) = environments s \<and>
   features (snd (SDKFeatureStates_get s request identifier)) = features s \<and>
   feature_states (snd (SDKFeatureStates_get s request identifier)) = feature_states s \<and>
   feature_state_values (snd (SDKFeatureStates_get s request identifier)) =
     feature_state_values s \<and>
   (identifier = None \<or> identifier = Some [] \<longrightarrow>
      snd (SDKFeatureStates_get s request identifier) = s) \<and>
   (snd (SDKFeatureStates_get s request identifier) = s \<or>
    (\<exists>i env. identifier = Some i \<and> i \<noteq> [] \<and> env \<in> set (environments s) \<and>
       META_HTTP_X_ENVIRONMENT_KEY request = Some (env_api_key env) \<and>
       filter (\<lambda>x. identity_identifier x = i \<and> identity_environment x = env_id env)
         (identities s) = [] \<and>
       snd (SDKFeatureStates_get s request identifier) =
         s\<lparr>identities := identities s @
             [\<lparr>identity_id = next_id (map identity_id (identities s)),
               identity_identifier = i, identity_environment = env_id env\<rparr>]\<rparr>))"
proof -
  let ?r = "SDKFeatureStates_get s request identifier"
  let ?new = "\<lambda>i env. s\<lparr>identities := identities s @
             [\<lparr>identity_id = next_id (map identity_id (identities s)),
               identity_identifier = i, identity_environment = env_id env\<rparr>]\<rparr>"
  have main: "snd ?r = s \<or>
    (\<exists>i env. identifier = Some i \<and> i \<noteq> [] \<and> env \<in> set (environments s) \<and>
       META_HTTP_X_ENVIRONMENT_KEY request = Some (env_api_key env) \<and>
       filter (\<lambda>x. identity_identifier x = i \<and> identity_environment x = env_id env)
         (identities s) = [] \<and>
       snd ?r = ?new i env)"
  proof (cases "META_HTTP_X_ENVIRONMENT_KEY request")
    case None
    then show ?thesis by (simp add: SDKFeatureStates_get_def)
  next
    case (Some key)
    show ?thesis
    proof (cases "get_object_or_404 EnvironmentM
                    (filter (\<lambda>e. env_api_key e = key) (environments s))")
      case (Inl e)
      with Some show ?thesis by (simp add: SDKFeatureStates_get_def)
    next
      case (Inr env)
      then have "filter (\<lambda>e. env_api_key e = key) (environments s) = [env]"
        by (simp add: get_object_or_404_Inr)
      then have "env \<in> set (filter (\<lambda>e. env_api_key e = key) (environments s))"
        by simp
      then have env: "env \<in> set (environments s)" "env_api_key env = key"
        by simp_all
      show ?thesis
      proof (cases "\<exists>i. identifier = Some i \<and> i \<noteq> []")
        case False
        then have "?r = get_without_identifier s request env"
          using Some Inr by (auto simp: SDKFeatureStates_get_def split: option.splits)
        then show ?thesis by (simp add: sdk_frame_without)
      next
        case True
        then obtain i where i: "identifier = Some i" "i \<noteq> []" by blast
        then have r: "?r = get_with_identifier s request env i"
          using Some Inr by (simp add: SDKFeatureStates_get_def)
        from sdk_frame_with [of s request env i] show ?thesis
        proof
          assume "snd (get_with_identifier s request env i) = s"
          with r show ?thesis by simp
        next
          assume created: "Identity_objects_get s i env = Inl (DoesNotExist IdentityM) \<and>
            snd (get_with_identifier s request env i) = snd (Identity_objects_create s i env)"
          then have "filter (\<lambda>x. identity_identifier x = i \<and> identity_environment x = env_id env)
                       (identities s) = []"
            by (simp add: Identity_objects_get_def objects_get_Inl)
          moreover have "snd ?r = ?new i env"
            using created r by (simp add: Identity_objects_create_def Let_def)
          ultimately show ?thesis using i env Some by blast
        qed
      qed
    qed
  qed
  have none: "identifier = None \<or> identifier = Some [] \<longrightarrow> snd ?r = s"
    using main by auto
  have frame: "environments (snd ?r) = environments s \<and> features (snd ?r) = features s \<and>
    feature_states (snd ?r) = feature_states s \<and>
    feature_state_values (snd ?r) = feature_state_values s"
    using main by auto
  from frame none main show ?thesis by blast
qed

theorem C9_lookup_only_creates_identity_witness:
  "feature_states (snd (SDKFeatureStates_get scenario_store
       (sdk_lookup (Some ''abc123'') (Some ''dark_mode'')) (Some ''newcomer''))) =
     [env_default, user_override] \<and>
   feature_state_values (snd (SDKFeatureStates_get scenario_store
       (sdk_lookup (Some ''abc123'') (Some ''dark_mode'')) (Some ''newcomer''))) = [] \<and>
   snd (SDKFeatureStates_get scenario_store
       (sdk_lookup (Some ''abc123'') (Some ''dark_mode'')) None) = scenario_store \<and>
   snd (SDKFeatureStates_get scenario_store
       (sdk_lookup (Some ''abc123'') (Some ''dark_mode'')) (Some [])) = scenario_store"
  using C9_lookup_only_creates_identity
          [of scenario_store "sdk_lookup (Some ''abc123'') (Some ''dark_mode'')" "Some ''newcomer''"]
        C9_lookup_only_creates_identity
          [of scenario_store "sdk_lookup (Some ''abc123'') (Some ''dark_mode'')" None]
        C9_lookup_only_creates_identity
          [of scenario_store "sdk_lookup (Some ''abc123'') (Some ''dark_mode'')" "Some []"]
  by (simp add: scenario_store_def)

section \<open>The administrative create: the feature checks\<close>



section \<open>The administrative update\<close>










section \<open>The uniqueness of feature states\<close>






















text \<open>
  C4: the create of a feature state for \<^verbatim>\<open>dark_mode\<close> whose
  \<^verbatim>\<open>feature_state_value\<close> is of no supported type (a list, say). The value
  serializer refuses the value and \<^verbatim>\<open>update_feature_state_value\<close> returns a 400
  response object, which \<^verbatim>\<open>create\<close> does not look at: the feature state is stored
  without the value and the answer is 201.
\<close>

theorem C4_create_with_invalid_value_answers_201:
  "create bare_store (under_abc123 0) (payload (Some (Ref 1)) (Some JOther)) =
     (Inr \<lparr>status = 201, body = Data FeatureStateSerializerBasic (Obj env_default) False\<rparr>,
      bare_store\<lparr>feature_states := [env_default]\<rparr>) \<and>
   fst (update_feature_state_value (bare_store\<lparr>feature_states := [env_default]\<rparr>) None JOther
          env_default) = Returned \<lparr>status = 400, body = Errors\<rparr>"
  by (simp add: create_def get_environment_from_request_def attach_identity_def
      create_validated_def references_exist_def unique_together_def next_id_def Let_def
      payload_def under_abc123_def bare_store_def env_abc123_def dark_mode_def env_default_def
      update_feature_state_value_def
      FeatureStateValueSerializer_is_valid_def generate_feature_state_value_data_def
      feature_state_value_of_def)

text \<open>
  C5: the update of the environment-level state of \<^verbatim>\<open>dark_mode\<close> with a
  \<^verbatim>\<open>feature_state_value\<close> of no supported type. \<^verbatim>\<open>update_feature_state_value\<close>
  returns a 400 response object instead of a saved value, \<^verbatim>\<open>update\<close> reads its
  \<^verbatim>\<open>id\<close>, and the request ends in an \<^verbatim>\<open>AttributeError\<close> that the framework's
  handler does not answer, not in a 400.
\<close>

theorem C5_update_with_invalid_value_raises:
  "dispatch (update scenario_store (under_abc123 1) (payload None (Some JOther))) =
     (Inl AttributeError, scenario_store) \<and>
   fst (update_feature_state_value scenario_store None JOther env_default) =
     Returned \<lparr>status = 400, body = Errors\<rparr>"
  by (simp add: dispatch_def update_def update_value_entry_def get_object_def get_queryset_def
      get_object_or_404_def update_feature_state_value_def Let_def
      FeatureStateValueSerializer_is_valid_def generate_feature_state_value_data_def
      feature_state_value_of_def payload_def under_abc123_def scenario_store_def
      env_abc123_def env_default_def user_override_def)

section \<open>The SDK lookup: which feature state answers\<close>

text \<open>
  On the path with an identifier and a feature name, for an identity and a feature that
  resolve: the feature state of the identity answers when there is exactly one, and the
  environment-level feature state answers when the identity has none.
\<close>

lemma identity_override_shadows_default:
  assumes "Identity_objects_get s i env = Inr ident"
    and "GET_feature request = Some name"
    and "Feature_objects_get s name env = Inr f"
  shows "FeatureState_objects_get s env (Some (identity_id ident)) f = Inr override \<Longrightarrow>
           get_with_identifier s request env i =
             (Inr \<lparr>status = 200,
                   body = Data FeatureStateSerializerFull (Obj override) False\<rparr>, s)"
    and "FeatureState_objects_get s env (Some (identity_id ident)) f =
           Inl (DoesNotExist FeatureStateM) \<Longrightarrow>
         FeatureState_objects_get s env None f = Inr fallback \<Longrightarrow>
           get_with_identifier s request env i =
             (Inr \<lparr>status = 200,
                   body = Data FeatureStateSerializerFull (Obj fallback) False\<rparr>, s)"
  using assms by (simp_all add: get_with_identifier_def)

text \<open>
  C1: the three lookups of the scenario for \<^verbatim>\<open>dark_mode\<close>. With the identity
  \<^verbatim>\<open>user42\<close> the override is serialized; with an identity that has no override the
  environment-level state is serialized; without an identity the serializer for one
  object is given the filtered query set, not the environment-level feature state in it.
\<close>

theorem C1_scenario_lookups:
  "fst (SDKFeatureStates_get scenario_store
          (sdk_lookup (Some ''abc123'') (Some ''dark_mode'')) (Some ''user42'')) =
     Inr \<lparr>status = 200, body = Data FeatureStateSerializerFull (Obj user_override) False\<rparr> \<and>
   fst (SDKFeatureStates_get scenario_store
          (sdk_lookup (Some ''abc123'') (Some ''dark_mode'')) (Some ''newcomer'')) =
     Inr \<lparr>status = 200, body = Data FeatureStateSerializerFull (Obj env_default) False\<rparr> \<and>
   fst (SDKFeatureStates_get scenario_store
          (sdk_lookup (Some ''abc123'') (Some ''dark_mode'')) None) =
     Inr \<lparr>status = 200,
          body = Data FeatureStateSerializerFull (QuerySet [env_default]) False\<rparr> \<and>
   fst (SDKFeatureStates_get scenario_store
          (sdk_lookup (Some ''abc123'') (Some ''dark_mode'')) None) \<noteq>
     Inr \<lparr>status = 200, body = Data FeatureStateSerializerFull (Obj env_default) False\<rparr>"
  by (simp add: sdk_defs scenario_store_def sdk_lookup_def env_abc123_def dark_mode_def
      user42_def env_default_def user_override_def)

text \<open>
  C3: the lookup of \<^verbatim>\<open>dark_mode\<close> for \<^verbatim>\<open>user42\<close> in the store where the feature
  exists and has no feature state at all. The second \<^verbatim>\<open>FeatureState.objects.get\<close>,
  inside the handler of the first one's \<^verbatim>\<open>DoesNotExist\<close>, raises
  \<^verbatim>\<open>FeatureState.DoesNotExist\<close> again; nothing catches it and the framework's handler
  does not answer it, so the lookup does not end in a 404. The identity has been created.
\<close>

theorem C3_lookup_without_any_state_raises:
  "dispatch (SDKFeatureStates_get bare_store
               (sdk_lookup (Some ''abc123'') (Some ''dark_mode'')) (Some ''user42'')) =
     (Inl (DoesNotExist FeatureStateM), bare_store\<lparr>identities := [user42]\<rparr>)"
  by (simp add: sdk_defs dispatch_def bare_store_def sdk_lookup_def env_abc123_def
      dark_mode_def user42_def)

end
